theory Spec2Isabelle
  imports Complex_Main "HOL-Library.Product_Lexorder"
begin

section \<open>Values of the program\<close>

text \<open>
  \<^verbatim>\<open>app.py\<close> works on three kinds of values: byte strings (the uploaded files and the
  synthesized average), Python \<^verbatim>\<open>str\<close> values (file names, decoded lines, tokens) and
  float64 numbers (Python floats and the elements of numpy arrays).

  \<^item> A byte string is a \<^typ>\<open>string\<close>: an Isabelle \<^typ>\<open>char\<close> is one byte.
  \<^item> A Python \<^verbatim>\<open>str\<close> is the list of its code points.
  \<^item> A float64 is either a finite number, one of the two infinities, or NaN. A finite
    float is represented by the real number it denotes and arithmetic on finite
    floats is exact: rounding to 53 bits, overflow to an infinity and the sign of
    zero are not represented. The special values follow IEEE 754.
\<close>

type_synonym bytes = string
type_synonym str = "nat list"

datatype float64 = Finite real | PInf | NInf | NaN

datatype py_error = ValueError | IndexError | ZeroDivisionError | NameError

definition bind_err :: "'e + 'a \<Rightarrow> ('a \<Rightarrow> 'e + 'b) \<Rightarrow> 'e + 'b" where
  "bind_err m f = (case m of Inl e \<Rightarrow> Inl e | Inr a \<Rightarrow> f a)"

definition ascii :: "string \<Rightarrow> str" where
  "ascii s = map of_char s"

subsection \<open>float64 arithmetic and comparison\<close>

definition isnan :: "float64 \<Rightarrow> bool" where
  "isnan x = (x = NaN)"

fun fneg :: "float64 \<Rightarrow> float64" where
  "fneg (Finite a) = Finite (- a)"
| "fneg PInf = NInf"
| "fneg NInf = PInf"
| "fneg NaN = NaN"

fun fadd :: "float64 \<Rightarrow> float64 \<Rightarrow> float64" where
  "fadd NaN y = NaN"
| "fadd x NaN = NaN"
| "fadd (Finite a) (Finite b) = Finite (a + b)"
| "fadd (Finite a) y = y"
| "fadd PInf NInf = NaN"
| "fadd NInf PInf = NaN"
| "fadd x y = x"

definition fsub :: "float64 \<Rightarrow> float64 \<Rightarrow> float64" where
  "fsub x y = fadd x (fneg y)"

definition fsign :: "float64 \<Rightarrow> int" where
  "fsign x = (case x of Finite a \<Rightarrow> (if a < 0 then - 1 else if a = 0 then 0 else 1)
      | PInf \<Rightarrow> 1 | NInf \<Rightarrow> - 1 | NaN \<Rightarrow> 0)"

definition inf_of_sign :: "int \<Rightarrow> float64" where
  "inf_of_sign s = (if s < 0 then NInf else PInf)"

fun fmul :: "float64 \<Rightarrow> float64 \<Rightarrow> float64" where
  "fmul NaN y = NaN"
| "fmul x NaN = NaN"
| "fmul (Finite a) (Finite b) = Finite (a * b)"
| "fmul x y = (if fsign x * fsign y = 0 then NaN else inf_of_sign (fsign x * fsign y))"

fun fdiv :: "float64 \<Rightarrow> float64 \<Rightarrow> float64" where
  "fdiv NaN y = NaN"
| "fdiv x NaN = NaN"
| "fdiv (Finite a) (Finite b) =
     (if b \<noteq> 0 then Finite (a / b) else if a = 0 then NaN else inf_of_sign (fsign (Finite a)))"
| "fdiv (Finite a) y = Finite 0"
| "fdiv x (Finite b) = inf_of_sign (fsign x * (if b < 0 then - 1 else 1))"
| "fdiv x y = NaN"

text \<open>The comparisons of IEEE 754: every comparison with NaN is false.\<close>

fun flt :: "float64 \<Rightarrow> float64 \<Rightarrow> bool" where
  "flt NaN y = False"
| "flt x NaN = False"
| "flt (Finite a) (Finite b) = (a < b)"
| "flt NInf y = (y \<noteq> NInf)"
| "flt x PInf = (x \<noteq> PInf)"
| "flt x y = False"

definition fgt :: "float64 \<Rightarrow> float64 \<Rightarrow> bool" where
  "fgt x y = flt y x"

definition feq :: "float64 \<Rightarrow> float64 \<Rightarrow> bool" where
  "feq x y = (x \<noteq> NaN \<and> x = y)"

definition fge :: "float64 \<Rightarrow> float64 \<Rightarrow> bool" where
  "fge x y = (fgt x y \<or> feq x y)"

subsection \<open>Python built-ins on lists and floats\<close>

text \<open>\<^verbatim>\<open>xs[i]\<close> for a non-negative index: IndexError out of range.\<close>

definition py_getitem :: "'a list \<Rightarrow> nat \<Rightarrow> py_error + 'a" where
  "py_getitem xs i = (if i < length xs then Inr (xs ! i) else Inl IndexError)"

text \<open>\<^verbatim>\<open>a / b\<close> on two Python floats raises ZeroDivisionError for a zero divisor.\<close>

definition py_truediv :: "float64 \<Rightarrow> float64 \<Rightarrow> py_error + float64" where
  "py_truediv a b = (if b = Finite 0 then Inl ZeroDivisionError else Inr (fdiv a b))"

section \<open>Text: decoding, lines, tokens\<close>

subsection \<open>\<^verbatim>\<open>bytes.decode('utf-8', errors='ignore')\<close>\<close>

text \<open>
  One step of the decoder on a non-empty byte sequence: the code point decoded, if
  any, and the number of bytes consumed. An ill-formed sequence is dropped up to
  the byte where it stops being a prefix of a well-formed one (one byte for an
  invalid start byte); a truncated sequence at the end of the input is dropped whole.
  Overlong encodings, surrogates and code points above 0x10FFFF are ill-formed.
\<close>

definition is_cont :: "nat \<Rightarrow> bool" where
  "is_cont b = (128 \<le> b \<and> b < 192)"

definition utf8_step :: "nat list \<Rightarrow> nat option \<times> nat" where
  "utf8_step bs = (case bs of [] \<Rightarrow> (None, 0) | b0 # r1 \<Rightarrow>
     if b0 < 128 then (Some b0, 1)
     else if b0 < 194 then (None, 1)
     else if b0 < 224 then
       (case r1 of [] \<Rightarrow> (None, 1)
        | b1 # r2 \<Rightarrow>
            if is_cont b1 then (Some ((b0 - 192) * 64 + (b1 - 128)), 2) else (None, 1))
     else if b0 < 240 then
       (case r1 of [] \<Rightarrow> (None, 1)
        | b1 # r2 \<Rightarrow>
            if \<not> is_cont b1 \<or> (b0 = 224 \<and> b1 < 160) \<or> (b0 = 237 \<and> 160 \<le> b1) then (None, 1)
            else (case r2 of [] \<Rightarrow> (None, 2)
              | b2 # r3 \<Rightarrow>
                  if is_cont b2
                  then (Some ((b0 - 224) * 4096 + (b1 - 128) * 64 + (b2 - 128)), 3)
                  else (None, 2)))
     else if b0 < 245 then
       (case r1 of [] \<Rightarrow> (None, 1)
        | b1 # r2 \<Rightarrow>
            if \<not> is_cont b1 \<or> (b0 = 240 \<and> b1 < 144) \<or> (b0 = 244 \<and> 144 \<le> b1) then (None, 1)
            else (case r2 of [] \<Rightarrow> (None, 2)
              | b2 # r3 \<Rightarrow>
                  if \<not> is_cont b2 then (None, 2)
                  else (case r3 of [] \<Rightarrow> (None, 3)
                    | b3 # r4 \<Rightarrow>
                        if is_cont b3
                        then (Some ((b0 - 240) * 262144 + (b1 - 128) * 4096
                                      + (b2 - 128) * 64 + (b3 - 128)), 4)
                        else (None, 3))))
     else (None, 1))"

lemma utf8_step_consumes: "bs \<noteq> [] \<Longrightarrow> 0 < snd (utf8_step bs)"
  by (cases bs) (auto simp: utf8_step_def split: list.splits)

function utf8_ignore :: "nat list \<Rightarrow> str" where
  "utf8_ignore bs =
     (if bs = [] then []
      else (case utf8_step bs of (cp, k) \<Rightarrow>
              (case cp of None \<Rightarrow> [] | Some c \<Rightarrow> [c]) @ utf8_ignore (drop k bs)))"
  by pat_completeness auto
termination
proof (relation "measure length")
  fix bs :: "nat list" and x :: "nat option \<times> nat" and cp k
  assume "bs \<noteq> []" and "(cp, k) = utf8_step bs"
  then have "0 < k"
    using utf8_step_consumes [of bs] by (metis snd_conv)
  with \<open>bs \<noteq> []\<close> show "(drop k bs, bs) \<in> measure length"
    by simp
qed simp

declare utf8_ignore.simps [simp del]

definition decode_utf8_ignore :: "bytes \<Rightarrow> str" where
  "decode_utf8_ignore b = utf8_ignore (map of_char b)"

subsection \<open>\<^verbatim>\<open>str.splitlines\<close>, \<^verbatim>\<open>str.strip\<close>, \<^verbatim>\<open>str.split\<close>, \<^verbatim>\<open>str.lower\<close>\<close>

text \<open>The line boundaries of \<^verbatim>\<open>str.splitlines\<close>; CR LF is one boundary.\<close>

definition is_linebreak :: "nat \<Rightarrow> bool" where
  "is_linebreak c = (c = 10 \<or> c = 11 \<or> c = 12 \<or> c = 13 \<or> c = 28 \<or> c = 29 \<or> c = 30
     \<or> c = 133 \<or> c = 8232 \<or> c = 8233)"

fun splitlines_from :: "str \<Rightarrow> str \<Rightarrow> str list" where
  "splitlines_from cur [] = (if cur = [] then [] else [cur])"
| "splitlines_from cur [c] = (if is_linebreak c then [cur] else [cur @ [c]])"
| "splitlines_from cur (c # d # cs) =
     (if c = 13 \<and> d = 10 then cur # splitlines_from [] cs
      else if is_linebreak c then cur # splitlines_from [] (d # cs)
      else splitlines_from (cur @ [c]) (d # cs))"

definition splitlines :: "str \<Rightarrow> str list" where
  "splitlines s = splitlines_from [] s"

text \<open>The code points for which \<^verbatim>\<open>str.isspace\<close> holds.\<close>

definition isspace :: "nat \<Rightarrow> bool" where
  "isspace c = ((9 \<le> c \<and> c \<le> 13) \<or> (28 \<le> c \<and> c \<le> 32) \<or> c = 133 \<or> c = 160
     \<or> c = 5760 \<or> (8192 \<le> c \<and> c \<le> 8202) \<or> c = 8232 \<or> c = 8233 \<or> c = 8239
     \<or> c = 8287 \<or> c = 12288)"

definition py_strip :: "str \<Rightarrow> str" where
  "py_strip s = rev (dropWhile isspace (rev (dropWhile isspace s)))"

fun split_from :: "str \<Rightarrow> str \<Rightarrow> str list" where
  "split_from cur [] = (if cur = [] then [] else [cur])"
| "split_from cur (c # cs) =
     (if isspace c then (if cur = [] then [] else [cur]) @ split_from [] cs
      else split_from (cur @ [c]) cs)"

definition py_split :: "str \<Rightarrow> str list" where
  "py_split s = split_from [] s"

definition startswith :: "str \<Rightarrow> str \<Rightarrow> bool" where
  "startswith s p = (take (length p) s = p)"

definition endswith :: "str \<Rightarrow> str \<Rightarrow> bool" where
  "endswith s p = (length p \<le> length s \<and> drop (length s - length p) s = p)"

text \<open>
  \<^verbatim>\<open>str.lower\<close> maps the letters A to Z to a to z. Of the other code points none
  lower-cases to a character of the suffixes \<^verbatim>\<open>.s1p\<close> and \<^verbatim>\<open>.cal\<close> that the
  program tests for, so they are left as they are.
\<close>

definition lower_cp :: "nat \<Rightarrow> nat" where
  "lower_cp c = (if 65 \<le> c \<and> c \<le> 90 then c + 32 else c)"

definition py_lower :: "str \<Rightarrow> str" where
  "py_lower s = map lower_cp s"

subsection \<open>\<^verbatim>\<open>float(token)\<close>\<close>

text \<open>
  The grammar of \<^verbatim>\<open>float\<close> on a string without whitespace (the tokens of
  \<^verbatim>\<open>str.split\<close> have none): an optional sign, then \<^verbatim>\<open>inf\<close>, \<^verbatim>\<open>infinity\<close> or
  \<^verbatim>\<open>nan\<close> in any case, or a decimal number with an optional exponent. A run of
  digits may have single underscores between digits. Anything else is a
  ValueError. Digits are the ASCII digits; the decimal digits of other scripts,
  which Python accepts too, are not.
\<close>

definition is_digit :: "nat \<Rightarrow> bool" where
  "is_digit c = (48 \<le> c \<and> c \<le> 57)"

fun digit_run :: "nat list \<Rightarrow> str \<Rightarrow> nat list \<times> str" where
  "digit_run acc [] = (acc, [])"
| "digit_run acc [c] = (if is_digit c then (acc @ [c - 48], []) else (acc, [c]))"
| "digit_run acc (c # d # cs) =
     (if is_digit c then digit_run (acc @ [c - 48]) (d # cs)
      else if c = 95 \<and> is_digit d then digit_run acc (d # cs)
      else (acc, c # d # cs))"

definition digitpart :: "str \<Rightarrow> (nat list \<times> str) option" where
  "digitpart s = (case s of [] \<Rightarrow> None
     | c # cs \<Rightarrow> if is_digit c then Some (digit_run [c - 48] cs) else None)"

definition digits_val :: "nat list \<Rightarrow> int" where
  "digits_val ds = foldl (\<lambda>a d. 10 * a + int d) 0 ds"

definition parse_exponent :: "str \<Rightarrow> int option" where
  "parse_exponent s = (case s of [] \<Rightarrow> Some 0
     | c # cs \<Rightarrow>
         if c = 101 \<or> c = 69 then
           (case cs of [] \<Rightarrow> None
            | g # ds \<Rightarrow>
                (case digitpart (if g = 45 \<or> g = 43 then ds else cs) of
                   None \<Rightarrow> None
                 | Some (es, rest) \<Rightarrow>
                     if rest = [] then Some ((if g = 45 then - 1 else 1) * digits_val es)
                     else None))
         else None)"

definition decimal_val :: "nat list \<Rightarrow> nat list \<Rightarrow> int \<Rightarrow> real" where
  "decimal_val ip fp e =
     (of_int (digits_val ip) + of_int (digits_val fp) / 10 ^ length fp)
       * (if 0 \<le> e then 10 ^ nat e else 1 / 10 ^ nat (- e))"

definition with_exponent :: "nat list \<Rightarrow> nat list \<Rightarrow> str \<Rightarrow> real option" where
  "with_exponent ip fp s = (case parse_exponent s of None \<Rightarrow> None
     | Some e \<Rightarrow> Some (decimal_val ip fp e))"

definition parse_number :: "str \<Rightarrow> real option" where
  "parse_number s = (case digitpart s of
       Some (ip, rest) \<Rightarrow>
         (case rest of [] \<Rightarrow> Some (decimal_val ip [] 0)
          | c # rest' \<Rightarrow>
              if c = 46 then
                (case digitpart rest' of
                   Some (fp, rest'') \<Rightarrow> with_exponent ip fp rest''
                 | None \<Rightarrow> with_exponent ip [] rest')
              else with_exponent ip [] rest)
     | None \<Rightarrow>
         (case s of [] \<Rightarrow> None
          | c # rest' \<Rightarrow>
              if c = 46 then
                (case digitpart rest' of
                   Some (fp, rest'') \<Rightarrow> with_exponent [] fp rest''
                 | None \<Rightarrow> None)
              else None))"

definition py_float :: "str \<Rightarrow> py_error + float64" where
  "py_float s =
     (let neg = (s \<noteq> [] \<and> hd s = 45);
          body = (if s \<noteq> [] \<and> (hd s = 45 \<or> hd s = 43) then tl s else s);
          low = map lower_cp body
      in if low = ascii ''inf'' \<or> low = ascii ''infinity'' then Inr (if neg then NInf else PInf)
         else if low = ascii ''nan'' then Inr NaN
         else (case parse_number body of
                 None \<Rightarrow> Inl ValueError
               | Some r \<Rightarrow> Inr (Finite (if neg then - r else r))))"

section \<open>\<^verbatim>\<open>parse_s_param\<close>\<close>

type_synonym trace = "float64 list \<times> float64 list \<times> float64 list"

text \<open>
  The body of the \<^verbatim>\<open>try\<close> block, lines 26 to 34, on the tokens of one line: an error
  raised by an index or a conversion, \<open>None\<close> for the \<^verbatim>\<open>continue\<close> of line 32, or the
  point read.
\<close>

definition try_block :: "bool \<Rightarrow> str list \<Rightarrow> py_error + (float64 \<times> float64 \<times> float64) option" where
  "try_block is_s1p data =
     bind_err (py_getitem data 0) (\<lambda>d0.
     bind_err (py_float d0) (\<lambda>x0.
     bind_err (py_truediv x0 (Finite 1000000000)) (\<lambda>f_ghz.
       if is_s1p then
         bind_err (py_getitem data 1) (\<lambda>d1.
         bind_err (py_float d1) (\<lambda>re.
         bind_err (py_getitem data 2) (\<lambda>d2.
         bind_err (py_float d2) (\<lambda>im.
           Inr (Some (f_ghz, re, im))))))
       else if length data < 5 then Inr None
       else
         bind_err (py_getitem data 3) (\<lambda>d3.
         bind_err (py_float d3) (\<lambda>re.
         bind_err (py_getitem data 4) (\<lambda>d4.
         bind_err (py_float d4) (\<lambda>im.
           Inr (Some (f_ghz, re, im)))))))))"

text \<open>
  One iteration of the loop of lines 18 to 39. The \<^verbatim>\<open>except\<close> clause catches
  ValueError and IndexError only; any other error leaves the function.
\<close>

definition loop_body :: "bool \<Rightarrow> trace \<Rightarrow> str \<Rightarrow> py_error + trace" where
  "loop_body is_s1p st line0 =
     (let line = py_strip line0 in
      if line = [] \<or> startswith line (ascii ''#'') \<or> startswith line (ascii ''!'') then Inr st
      else
        let data = py_split line in
        if length data < 3 then Inr st
        else
          (case try_block is_s1p data of
             Inr (Some (f_ghz, re, im)) \<Rightarrow>
               (case st of (freq, s_real, s_imag) \<Rightarrow>
                  Inr (freq @ [f_ghz], s_real @ [re], s_imag @ [im]))
           | Inr None \<Rightarrow> Inr st
           | Inl e \<Rightarrow> if e = ValueError \<or> e = IndexError then Inr st else Inl e))"

fun parse_loop :: "bool \<Rightarrow> trace \<Rightarrow> str list \<Rightarrow> py_error + trace" where
  "parse_loop is_s1p st [] = Inr st"
| "parse_loop is_s1p st (l # ls) =
     (case loop_body is_s1p st l of
        Inl e \<Rightarrow> Inl e
      | Inr st' \<Rightarrow> parse_loop is_s1p st' ls)"

definition is_s1p_name :: "str \<Rightarrow> bool" where
  "is_s1p_name filename =
     (endswith (py_lower filename) (ascii ''.s1p'') \<or> endswith (py_lower filename) (ascii ''.cal''))"

definition parse_s_param :: "bytes \<Rightarrow> str \<Rightarrow> py_error + trace" where
  "parse_s_param file_content filename =
     (let is_s1p = is_s1p_name filename;
          lines = splitlines (decode_utf8_ignore file_content)
      in parse_loop is_s1p ([], [], []) lines)"

section \<open>numpy on one-dimensional float64 arrays\<close>

text \<open>
  An elementwise binary operation on two arrays of shapes \<open>(n,)\<close> and \<open>(m,)\<close>: the
  shapes must be equal, or one of them is \<open>(1,)\<close> and is broadcast; otherwise numpy
  raises ValueError.
\<close>

definition np_binop ::
    "(float64 \<Rightarrow> float64 \<Rightarrow> float64) \<Rightarrow> float64 list \<Rightarrow> float64 list \<Rightarrow> py_error + float64 list" where
  "np_binop f xs ys =
     (if length xs = length ys then Inr (map2 f xs ys)
      else if length xs = 1 then Inr (map (f (hd xs)) ys)
      else if length ys = 1 then Inr (map (\<lambda>x. f x (hd ys)) xs)
      else Inl ValueError)"

text \<open>
  \<^verbatim>\<open>np.argsort\<close>: the indices that sort the array in ascending order, NaN last.
  Equal keys keep their order here; numpy's default sort leaves the order of equal
  keys open.
\<close>

definition sort_rank :: "float64 \<Rightarrow> nat \<times> real" where
  "sort_rank x = (case x of NInf \<Rightarrow> (0, 0) | Finite a \<Rightarrow> (1, a) | PInf \<Rightarrow> (2, 0) | NaN \<Rightarrow> (3, 0))"

definition np_argsort :: "float64 list \<Rightarrow> nat list" where
  "np_argsort a = sort_key (\<lambda>i. sort_rank (a ! i)) [0..<length a]"

text \<open>\<^verbatim>\<open>a[idx]\<close> for an index array: IndexError when an index is out of bounds.\<close>

definition np_take :: "'a list \<Rightarrow> nat list \<Rightarrow> py_error + 'a list" where
  "np_take a idx =
     (if list_all (\<lambda>i. i < length a) idx then Inr (map (\<lambda>i. a ! i) idx) else Inl IndexError)"

text \<open>\<^verbatim>\<open>a[-1]\<close>.\<close>

definition py_last :: "'a list \<Rightarrow> py_error + 'a" where
  "py_last xs = (if xs = [] then Inl IndexError else Inr (last xs))"

text \<open>
  \<^verbatim>\<open>np.interp(x, xp, fp, left, right)\<close> at one point \<open>x\<close>. numpy finds the index \<open>j\<close>
  with \<open>xp[j] \<le> x < xp[j+1]\<close> by bisection, which presupposes that \<open>xp\<close> is
  increasing; the index is found here by a scan from the left, which gives the same
  index on an increasing \<open>xp\<close>.
\<close>

definition search_interval :: "float64 \<Rightarrow> float64 list \<Rightarrow> nat" where
  "search_interval x xp = length (takeWhile (\<lambda>a. fge x a) (tl xp))"

definition interp_point ::
    "float64 list \<Rightarrow> float64 list \<Rightarrow> float64 \<Rightarrow> float64 \<Rightarrow> float64 \<Rightarrow> float64" where
  "interp_point xp fp lval rval x =
     (let n = length xp in
      if n = 1 then
        (if flt x (xp ! 0) then lval else if fgt x (xp ! 0) then rval else fp ! 0)
      else if isnan x then x
      else if fgt x (xp ! (n - 1)) then rval
      else if flt x (xp ! 0) then lval
      else
        let j = search_interval x xp in
        if j = n - 1 then fp ! j
        else if feq (xp ! j) x then fp ! j
        else
          let slope = fdiv (fsub (fp ! (j + 1)) (fp ! j)) (fsub (xp ! (j + 1)) (xp ! j));
              r = fadd (fmul slope (fsub x (xp ! j))) (fp ! j)
          in if isnan r then
               (let r' = fadd (fmul slope (fsub x (xp ! (j + 1)))) (fp ! (j + 1))
                in if isnan r' \<and> feq (fp ! j) (fp ! (j + 1)) then fp ! j else r')
             else r)"

definition np_interp ::
    "float64 list \<Rightarrow> float64 list \<Rightarrow> float64 list \<Rightarrow> float64 option \<Rightarrow> float64 option
      \<Rightarrow> py_error + float64 list" where
  "np_interp x xp fp left right =
     (if xp = [] then Inl ValueError
      else if length fp \<noteq> length xp then Inl ValueError
      else
        let lval = (case left of None \<Rightarrow> fp ! 0 | Some l \<Rightarrow> l);
            rval = (case right of None \<Rightarrow> last fp | Some r \<Rightarrow> r)
        in Inr (map (interp_point xp fp lval rval) x))"

section \<open>\<^verbatim>\<open>apply_reduction\<close>\<close>

definition apply_reduction ::
    "float64 list \<Rightarrow> float64 list \<Rightarrow> float64 list \<Rightarrow> float64 list \<Rightarrow> py_error + float64 list" where
  "apply_reduction freq mag_db red_freq red_mag_db =
     (if length red_freq = 0 \<or> length red_mag_db = 0 then Inr mag_db
      else
        let sort_idx = np_argsort red_freq in
        bind_err (np_take red_freq sort_idx) (\<lambda>red_freq'.
        bind_err (np_take red_mag_db sort_idx) (\<lambda>red_mag_db'.
        bind_err (py_getitem red_mag_db' 0) (\<lambda>left.
        bind_err (py_last red_mag_db') (\<lambda>right.
        bind_err (np_interp freq red_freq' red_mag_db' (Some left) (Some right)) (\<lambda>red_interp.
          np_binop fsub mag_db red_interp))))))"

section \<open>\<^verbatim>\<open>criar_media\<close>\<close>

text \<open>
  Lines 90 to 97: trace B is interpolated onto the grid of trace A when the two
  lengths differ, then the real and the imaginary parts are averaged.
\<close>

definition fmean :: "float64 \<Rightarrow> float64 \<Rightarrow> float64" where
  "fmean a b = fdiv (fadd a b) (Finite 2)"

definition np_mean2 :: "float64 list \<Rightarrow> float64 list \<Rightarrow> py_error + float64 list" where
  "np_mean2 xs ys = bind_err (np_binop fadd xs ys) (\<lambda>s. Inr (map (\<lambda>v. fdiv v (Finite 2)) s))"

definition media_arrays :: "trace \<Rightarrow> trace \<Rightarrow> py_error + trace" where
  "media_arrays t1 t2 =
     (case t1 of (freq1, re1, im1) \<Rightarrow> case t2 of (freq2, re2, im2) \<Rightarrow>
        bind_err
          (if length freq1 \<noteq> length freq2 then
             bind_err (np_interp freq1 freq2 re2 None None) (\<lambda>re2'.
             bind_err (np_interp freq1 freq2 im2 None None) (\<lambda>im2'.
               Inr (re2', im2')))
           else Inr (re2, im2))
          (\<lambda>(re2, im2).
             bind_err (np_mean2 re1 re2) (\<lambda>re_mean.
             bind_err (np_mean2 im1 im2) (\<lambda>im_mean.
               Inr (freq1, re_mean, im_mean)))))"

text \<open>
  The two float formats of line 107, each giving the bytes written: \<open>fmt_str\<close> is
  the default format of a float in an f-string and \<open>fmt_6f\<close> is \<^verbatim>\<open>:.6f\<close>. Both
  depend on the binary representation of the float, which the model does not
  have, so they are parameters.
\<close>

record float_fmt =
  fmt_str :: "float64 \<Rightarrow> bytes"
  fmt_6f :: "float64 \<Rightarrow> bytes"

definition media_line :: "float_fmt \<Rightarrow> trace \<Rightarrow> nat \<Rightarrow> py_error + bytes" where
  "media_line fmt mean i =
     (case mean of (freq_mean, re_mean, im_mean) \<Rightarrow>
        bind_err (py_getitem freq_mean i) (\<lambda>f.
          let f_hz = fmul f (Finite 1000000000) in
          bind_err (py_getitem re_mean i) (\<lambda>r.
          bind_err (py_getitem im_mean i) (\<lambda>m.
            Inr (fmt_str fmt f_hz @ '' 0 0 '' @ fmt_6f fmt r @ '' '' @ fmt_6f fmt m
                   @ '' 0 0 0 0'' @ [CHR 0x0A])))))"

fun write_lines :: "float_fmt \<Rightarrow> trace \<Rightarrow> bytes \<Rightarrow> nat list \<Rightarrow> py_error + bytes" where
  "write_lines fmt mean output [] = Inr output"
| "write_lines fmt mean output (i # is) =
     bind_err (media_line fmt mean i) (\<lambda>line. write_lines fmt mean (output @ line) is)"

definition media_content :: "float_fmt \<Rightarrow> trace \<Rightarrow> py_error + bytes" where
  "media_content fmt mean =
     write_lines fmt mean
       (''!File created by Averaging App'' @ [CHR 0x0A] @ ''# Hz S RI R 50'' @ [CHR 0x0A])
       [0..<length (fst mean)]"

text \<open>\<^verbatim>\<open>f"Media_{file1_name}_{file2_name}.s2p"\<close>; the second letter is U+00E9.\<close>

definition nome_media :: "str \<Rightarrow> str \<Rightarrow> str" where
  "nome_media file1_name file2_name =
     [77, 233, 100, 105, 97, 95] @ file1_name @ [95] @ file2_name @ ascii ''.s2p''"

text \<open>
  The result \<open>None\<close> is the pair \<^verbatim>\<open>(None, None)\<close> returned after the error message of
  line 87.
\<close>

definition criar_media ::
    "float_fmt \<Rightarrow> bytes \<Rightarrow> str \<Rightarrow> bytes \<Rightarrow> str \<Rightarrow> py_error + (str \<times> bytes) option" where
  "criar_media fmt file1_content file1_name file2_content file2_name =
     bind_err (parse_s_param file1_content file1_name) (\<lambda>t1.
     bind_err (parse_s_param file2_content file2_name) (\<lambda>t2.
       if length (fst t1) = 0 \<or> length (fst t2) = 0 then Inr None
       else
         bind_err (media_arrays t1 t2) (\<lambda>mean.
         bind_err (media_content fmt mean) (\<lambda>content.
           Inr (Some (nome_media file1_name file2_name, content))))))"

section \<open>Grouping the files of a plot\<close>

text \<open>\<^verbatim>\<open>range(i, stop, step)\<close> for a step other than zero.\<close>

function py_range :: "int \<Rightarrow> int \<Rightarrow> int \<Rightarrow> int list" where
  "py_range i stop step =
     (if (0 < step \<and> i < stop) \<or> (step < 0 \<and> stop < i)
      then i # py_range (i + step) stop step else [])"
  by pat_completeness auto
termination
  by (relation "measure (\<lambda>(i, stop, step). nat (if 0 < step then stop - i else i - stop))") auto

declare py_range.simps [simp del]

text \<open>\<^verbatim>\<open>xs[lo:hi]\<close>: a negative bound counts from the end, and both are clamped.\<close>

definition slice_bound :: "nat \<Rightarrow> int \<Rightarrow> nat" where
  "slice_bound n k = (if k < 0 then nat (max 0 (int n + k)) else min n (nat k))"

definition py_slice :: "'a list \<Rightarrow> int \<Rightarrow> int \<Rightarrow> 'a list" where
  "py_slice xs lo hi =
     (let l = slice_bound (length xs) lo; h = slice_bound (length xs) hi
      in take (h - l) (drop l xs))"

text \<open>\<^verbatim>\<open>str(n)\<close> for an integer.\<close>

fun nat_digits :: "nat \<Rightarrow> str" where
  "nat_digits n = (if n < 10 then [48 + n] else nat_digits (n div 10) @ [48 + n mod 10])"

declare nat_digits.simps [simp del]

definition str_int :: "int \<Rightarrow> str" where
  "str_int k = (if k < 0 then 45 # nat_digits (nat (- k)) else nat_digits (nat k))"

text \<open>
  Lines 186 to 202 of the handler of the plot button, for a non-empty set of files.
  The result is the list of the calls of \<^verbatim>\<open>plot_files\<close> made, each with its files,
  its title and its flags (the reduction curve is the same in every call).

  \<open>askinteger\<close> is the outcome of evaluating \<^verbatim>\<open>simpledialog.askinteger(...)\<close> on line
  194: the integer entered or \<open>None\<close>. \<^verbatim>\<open>app.py\<close> never imports \<^verbatim>\<open>simpledialog\<close>, so
  in the program as it stands this outcome is a NameError.
\<close>

datatype plot_call = PlotFiles "(str \<times> bytes) list" str "bool list"

definition titulo_grupo :: "str \<Rightarrow> int \<Rightarrow> int \<Rightarrow> str" where
  "titulo_grupo titulo i max_por = titulo @ ascii '' - Parte '' @ str_int (i div max_por + 1)"

definition gerar_grafico ::
    "(py_error + int option) \<Rightarrow> str \<Rightarrow> (str \<times> bytes) list \<Rightarrow> bool list \<Rightarrow> str
      \<Rightarrow> py_error + plot_call list" where
  "gerar_grafico askinteger titulo files_data_list apply_flags agrupar =
     (let LIMITE = 10 in
      if LIMITE < length files_data_list \<and> agrupar = ascii ''Sim'' then
        bind_err askinteger (\<lambda>answer.
          let max_por = (case answer of None \<Rightarrow> 10 | Some k \<Rightarrow> if k = 0 then 10 else k)
          in Inr (map (\<lambda>i. PlotFiles (py_slice files_data_list i (i + max_por))
                              (titulo_grupo titulo i max_por)
                              (py_slice apply_flags i (i + max_por)))
                   (py_range 0 (int (length files_data_list)) max_por)))
      else Inr [PlotFiles files_data_list titulo apply_flags])"

text \<open>The invariant of a trace: the three sequences have the same length.\<close>

definition wf_trace :: "trace \<Rightarrow> bool" where
  "wf_trace t = (case t of (freq, s_real, s_imag) \<Rightarrow>
     length s_real = length freq \<and> length s_imag = length freq)"

text \<open>The data line of the column-selection example, and its tokens.\<close>

definition spec_line :: bytes where
  "spec_line = ''1000000000 0.1 0.2 0.3 0.4 0.5 0.6 0.7 0.8''"

definition spec_tokens :: "str list" where
  "spec_tokens = map ascii [''1000000000'', ''0.1'', ''0.2'', ''0.3'', ''0.4'', ''0.5'', ''0.6'', ''0.7'', ''0.8'']"



section \<open>Properties of the parser\<close>

lemma bind_err_Inl [simp]: "bind_err (Inl e) f = Inl e"
  by (simp add: bind_err_def)

lemma bind_err_Inr [simp]: "bind_err (Inr a) f = f a"
  by (simp add: bind_err_def)

lemma bind_err_eq_Inl:
  "bind_err m f = Inl e \<longleftrightarrow> m = Inl e \<or> (\<exists>a. m = Inr a \<and> f a = Inl e)"
  by (cases m) simp_all

lemma py_float_error: "py_float s = Inl e \<Longrightarrow> e = ValueError"
  by (auto simp: py_float_def Let_def split: if_splits option.splits)

lemma py_getitem_error: "py_getitem xs i = Inl e \<Longrightarrow> e = IndexError"
  by (auto simp: py_getitem_def split: if_splits)

lemma py_truediv_giga: "py_truediv x (Finite 1000000000) = Inr (fdiv x (Finite 1000000000))"
  by (simp add: py_truediv_def)

text \<open>The only errors the \<^verbatim>\<open>try\<close> block can raise are the two that are caught.\<close>

lemma try_block_error:
  assumes "try_block is_s1p data = Inl e"
  shows "e = ValueError \<or> e = IndexError"
  using assms unfolding try_block_def py_truediv_giga
  by (auto simp: bind_err_eq_Inl split: if_splits dest: py_float_error py_getitem_error)

lemma loop_body_shape:
  assumes "wf_trace st"
  shows "\<exists>st'. loop_body is_s1p st l = Inr st' \<and> wf_trace st'"
proof (cases "try_block is_s1p (py_split (py_strip l))")
  case (Inl e)
  then have "e = ValueError \<or> e = IndexError"
    by (rule try_block_error)
  with Inl assms show ?thesis
    by (cases st) (auto simp: loop_body_def Let_def)
next
  case (Inr p)
  with assms show ?thesis
    by (cases st; cases p) (auto simp: loop_body_def Let_def wf_trace_def)
qed

lemma parse_loop_shape:
  "wf_trace st \<Longrightarrow> \<exists>st'. parse_loop is_s1p st ls = Inr st' \<and> wf_trace st'"
proof (induction ls arbitrary: st)
  case Nil
  then show ?case by simp
next
  case (Cons l ls)
  from loop_body_shape [OF Cons.prems, of is_s1p l]
  obtain st1 where "loop_body is_s1p st l = Inr st1" and "wf_trace st1"
    by blast
  with Cons.IH [of st1] show ?case
    by simp
qed

lemma parse_s_param_shape:
  "\<exists>t. parse_s_param file_content filename = Inr t \<and> wf_trace t"
  unfolding parse_s_param_def Let_def
  by (rule parse_loop_shape) (simp add: wf_trace_def)

text \<open>
  Claim C2. For every byte sequence and every file name \<^verbatim>\<open>parse_s_param\<close> returns
  normally, no error leaves it, and the three sequences it returns have the same
  length.
\<close>

theorem parse_s_param_total:
  "\<exists>freq s_real s_imag.
     parse_s_param file_content filename = Inr (freq, s_real, s_imag)
     \<and> length s_real = length freq \<and> length s_imag = length freq"
  using parse_s_param_shape [of file_content filename]
  by (auto simp: wf_trace_def)

subsection \<open>Evaluation on the example line\<close>

lemma utf8_ignore_Nil [simp]: "utf8_ignore [] = []"
  by (simp add: utf8_ignore.simps)

lemma utf8_ignore_ascii [simp]: "b < 128 \<Longrightarrow> utf8_ignore (b # bs) = b # utf8_ignore bs"
  by (subst utf8_ignore.simps) (simp add: utf8_step_def)

lemmas text_eval =
  decode_utf8_ignore_def ascii_def splitlines_def is_linebreak_def py_strip_def isspace_def
  py_split_def startswith_def endswith_def py_lower_def lower_cp_def is_s1p_name_def

lemmas float_eval =
  py_float_def ascii_def parse_number_def digitpart_def is_digit_def digits_val_def
  decimal_val_def lower_cp_def with_exponent_def parse_exponent_def

lemma spec_line_lines: "splitlines (decode_utf8_ignore spec_line) = [ascii spec_line]"
  by (simp add: spec_line_def text_eval)

lemma spec_line_strip: "py_strip (ascii spec_line) = ascii spec_line"
  by (simp add: spec_line_def text_eval)

lemma spec_line_split: "py_split (ascii spec_line) = spec_tokens"
  by (simp add: spec_line_def spec_tokens_def text_eval)

lemma spec_line_data:
  "ascii spec_line \<noteq> []" "\<not> startswith (ascii spec_line) (ascii ''#'')"
  "\<not> startswith (ascii spec_line) (ascii ''!'')"
  by (simp_all add: spec_line_def text_eval)

lemma spec_tokens_nth:
  "length spec_tokens = 9"
  "spec_tokens ! 0 = ascii ''1000000000''" "spec_tokens ! Suc 0 = ascii ''0.1''"
  "spec_tokens ! 2 = ascii ''0.2''" "spec_tokens ! 3 = ascii ''0.3''"
  "spec_tokens ! 4 = ascii ''0.4''"
  by (simp_all add: spec_tokens_def)

lemma spec_floats:
  "py_float (ascii ''1000000000'') = Inr (Finite 1000000000)"
  "py_float (ascii ''0.1'') = Inr (Finite (1 / 10))"
  "py_float (ascii ''0.2'') = Inr (Finite (2 / 10))"
  "py_float (ascii ''0.3'') = Inr (Finite (3 / 10))"
  "py_float (ascii ''0.4'') = Inr (Finite (4 / 10))"
  by (simp_all add: float_eval)

lemma try_block_two_port:
  assumes "5 \<le> length data"
    and "py_float (data ! 0) = Inr x0" and "py_float (data ! 3) = Inr re"
    and "py_float (data ! 4) = Inr im"
  shows "try_block False data = Inr (Some (fdiv x0 (Finite 1000000000), re, im))"
  using assms by (auto simp: try_block_def py_getitem_def py_truediv_def)

lemma try_block_one_port:
  assumes "3 \<le> length data"
    and "py_float (data ! 0) = Inr x0" and "py_float (data ! 1) = Inr re"
    and "py_float (data ! 2) = Inr im"
  shows "try_block True data = Inr (Some (fdiv x0 (Finite 1000000000), re, im))"
  using assms by (auto simp: try_block_def py_getitem_def py_truediv_def)

lemma loop_body_point:
  assumes "py_strip line0 \<noteq> []"
    and "\<not> startswith (py_strip line0) (ascii ''#'')"
    and "\<not> startswith (py_strip line0) (ascii ''!'')"
    and "3 \<le> length (py_split (py_strip line0))"
    and "try_block is_s1p (py_split (py_strip line0)) = Inr (Some (f_ghz, re, im))"
  shows "loop_body is_s1p (freq, s_real, s_imag) line0
           = Inr (freq @ [f_ghz], s_real @ [re], s_imag @ [im])"
  using assms by (simp add: loop_body_def Let_def)

lemma parse_spec_line:
  "parse_s_param spec_line filename = loop_body (is_s1p_name filename) ([], [], []) (ascii spec_line)"
  by (simp add: parse_s_param_def Let_def spec_line_lines split: sum.splits)

lemma spec_line_two_port:
  "loop_body False ([], [], []) (ascii spec_line)
     = Inr ([Finite 1], [Finite (3 / 10)], [Finite (4 / 10)])"
proof -
  have "try_block False spec_tokens = Inr (Some (fdiv (Finite 1000000000) (Finite 1000000000), Finite (3 / 10), Finite (4 / 10)))"
    by (rule try_block_two_port) (simp_all add: spec_tokens_nth spec_floats)
  then show ?thesis
    using loop_body_point [of "ascii spec_line" False _ _ _ "[]" "[]" "[]"]
    by (simp add: spec_line_strip spec_line_split spec_line_data spec_tokens_nth)
qed

lemma spec_line_one_port:
  "loop_body True ([], [], []) (ascii spec_line)
     = Inr ([Finite 1], [Finite (1 / 10)], [Finite (2 / 10)])"
proof -
  have "try_block True spec_tokens = Inr (Some (fdiv (Finite 1000000000) (Finite 1000000000), Finite (1 / 10), Finite (2 / 10)))"
    by (rule try_block_one_port) (simp_all add: spec_tokens_nth spec_floats)
  then show ?thesis
    using loop_body_point [of "ascii spec_line" True _ _ _ "[]" "[]" "[]"]
    by (simp add: spec_line_strip spec_line_split spec_line_data spec_tokens_nth)
qed

text \<open>
  Claim C3, amended. The port mode is decided on the lower-cased file name: for
  every file name whose lower-cased form ends neither in \<^verbatim>\<open>.s1p\<close> nor in \<^verbatim>\<open>.cal\<close>,
  a line that is not blank, not a comment, has at least 5 tokens and whose tokens
  0, 3 and 4 convert, adds exactly one point: frequency token 0 divided by 1e9,
  real part token 3, imaginary part token 4. In particular the example line parses
  to frequency 1, real part 0.3 and imaginary part 0.4.
\<close>

theorem two_port_columns:
  assumes "\<not> is_s1p_name filename"
    and "line = py_strip line0" and "line \<noteq> []"
    and "\<not> startswith line (ascii ''#'')" and "\<not> startswith line (ascii ''!'')"
    and "data = py_split line" and "5 \<le> length data"
    and "py_float (data ! 0) = Inr x0" and "py_float (data ! 3) = Inr re"
    and "py_float (data ! 4) = Inr im"
  shows "loop_body (is_s1p_name filename) (freq, s_real, s_imag) line0
           = Inr (freq @ [fdiv x0 (Finite 1000000000)], s_real @ [re], s_imag @ [im])
         \<and> parse_s_param spec_line filename
           = Inr ([Finite 1], [Finite (3 / 10)], [Finite (4 / 10)])"
proof
  have "try_block False data = Inr (Some (fdiv x0 (Finite 1000000000), re, im))"
    using assms(7-10) by (rule try_block_two_port)
  with assms(1-7) show "loop_body (is_s1p_name filename) (freq, s_real, s_imag) line0
      = Inr (freq @ [fdiv x0 (Finite 1000000000)], s_real @ [re], s_imag @ [im])"
    by (simp add: loop_body_point)
next
  show "parse_s_param spec_line filename
      = Inr ([Finite 1], [Finite (3 / 10)], [Finite (4 / 10)])"
    using assms(1) by (simp add: parse_spec_line spec_line_two_port)
qed

text \<open>The theorem at the file name \<^verbatim>\<open>a.s2p\<close> and the example line.\<close>

theorem two_port_columns_witness:
  "\<not> is_s1p_name (ascii ''a.s2p'')
   \<and> py_split (py_strip (ascii spec_line)) = spec_tokens
   \<and> loop_body (is_s1p_name (ascii ''a.s2p'')) ([], [], []) (ascii spec_line)
       = Inr ([Finite 1], [Finite (3 / 10)], [Finite (4 / 10)])
   \<and> parse_s_param spec_line (ascii ''a.s2p'')
       = Inr ([Finite 1], [Finite (3 / 10)], [Finite (4 / 10)])"
proof -
  have n: "\<not> is_s1p_name (ascii ''a.s2p'')"
    by (simp add: text_eval)
  have t: "py_split (py_strip (ascii spec_line)) = spec_tokens"
    by (simp add: spec_line_strip spec_line_split)
  have "loop_body (is_s1p_name (ascii ''a.s2p'')) ([], [], []) (ascii spec_line)
           = Inr ([] @ [fdiv (Finite 1000000000) (Finite 1000000000)], [] @ [Finite (3 / 10)], [] @ [Finite (4 / 10)])
         \<and> parse_s_param spec_line (ascii ''a.s2p'')
           = Inr ([Finite 1], [Finite (3 / 10)], [Finite (4 / 10)])"
    by (rule two_port_columns [OF n refl _ _ _ refl])
       (simp_all add: spec_line_strip spec_line_split spec_line_data spec_tokens_nth spec_floats)
  with n t show ?thesis
    by simp
qed

text \<open>
  Claim C3 as stated fails: the name \<^verbatim>\<open>A.S1P\<close> ends neither in \<^verbatim>\<open>.s1p\<close> nor in
  \<^verbatim>\<open>.cal\<close>, yet the example line is read in 1-port mode, real part 0.1 and
  imaginary part 0.2.
\<close>

theorem two_port_suffix_case_counterexample:
  "\<not> endswith (ascii ''A.S1P'') (ascii ''.s1p'')
   \<and> \<not> endswith (ascii ''A.S1P'') (ascii ''.cal'')
   \<and> parse_s_param spec_line (ascii ''A.S1P'')
       = Inr ([Finite 1], [Finite (1 / 10)], [Finite (2 / 10)])
   \<and> parse_s_param spec_line (ascii ''A.S1P'')
       \<noteq> Inr ([Finite 1], [Finite (3 / 10)], [Finite (4 / 10)])"
proof -
  have "is_s1p_name (ascii ''A.S1P'')"
    by (simp add: text_eval)
  then have "parse_s_param spec_line (ascii ''A.S1P'')
      = Inr ([Finite 1], [Finite (1 / 10)], [Finite (2 / 10)])"
    by (simp add: parse_spec_line spec_line_one_port)
  then show ?thesis
    by (simp add: text_eval)
qed



section \<open>Properties of the reduction\<close>

text \<open>
  Claim C7. With empty reference sequences \<^verbatim>\<open>apply_reduction\<close> returns the target
  magnitudes unchanged, for every target.
\<close>

theorem apply_reduction_noop: "apply_reduction freq mag_db [] [] = Inr mag_db"
  by (simp add: apply_reduction_def)

subsection \<open>Interpolation on a sorted reference\<close>

















section \<open>Properties of the averaging\<close>

lemma np_mean2_same_length:
  "length xs = length ys \<Longrightarrow> np_mean2 xs ys = Inr (map2 fmean xs ys)"
  by (auto simp: np_mean2_def np_binop_def fmean_def)

lemma np_interp_length:
  "np_interp x xp fp left right = Inr r \<Longrightarrow> length r = length x"
  by (auto simp: np_interp_def Let_def split: if_splits)

lemma np_interp_ok:
  "xp \<noteq> [] \<Longrightarrow> length fp = length xp \<Longrightarrow> \<exists>r. np_interp x xp fp left right = Inr r"
  by (simp add: np_interp_def Let_def)

lemma media_arrays_cases:
  assumes "wf_trace (freq1, re1, im1)" and "wf_trace (freq2, re2, im2)"
  shows "media_arrays (freq1, re1, im1) (freq2, re2, im2) =
     (if length freq1 = length freq2
      then Inr (freq1, map2 fmean re1 re2, map2 fmean im1 im2)
      else
        bind_err (np_interp freq1 freq2 re2 None None) (\<lambda>re2'.
        bind_err (np_interp freq1 freq2 im2 None None) (\<lambda>im2'.
          Inr (freq1, map2 fmean re1 re2', map2 fmean im1 im2'))))"
proof (cases "length freq1 = length freq2")
  case True
  with assms show ?thesis
    by (simp add: media_arrays_def wf_trace_def np_mean2_same_length)
next
  case False
  show ?thesis
  proof (cases "np_interp freq1 freq2 re2 None None")
    case (Inl e)
    with False show ?thesis by (simp add: media_arrays_def)
  next
    case re: (Inr re2')
    show ?thesis
    proof (cases "np_interp freq1 freq2 im2 None None")
      case (Inl e)
      with False re show ?thesis by (simp add: media_arrays_def)
    next
      case im: (Inr im2')
      from re im have "length re2' = length freq1" "length im2' = length freq1"
        by (auto dest: np_interp_length)
      with assms False re im show ?thesis
        by (simp add: media_arrays_def wf_trace_def np_mean2_same_length)
    qed
  qed
qed





lemma media_arrays_ok:
  assumes "wf_trace t1" and "wf_trace t2" and "fst t2 \<noteq> []"
  shows "\<exists>m. media_arrays t1 t2 = Inr m \<and> wf_trace m \<and> fst m = fst t1"
proof -
  obtain freq1 re1 im1 where t1: "t1 = (freq1, re1, im1)" by (cases t1)
  obtain freq2 re2 im2 where t2: "t2 = (freq2, re2, im2)" by (cases t2)
  from assms t2 have ne: "freq2 \<noteq> []" and l2: "length re2 = length freq2" "length im2 = length freq2"
    by (simp_all add: wf_trace_def)
  from assms t1 have l1: "length re1 = length freq1" "length im1 = length freq1"
    by (simp_all add: wf_trace_def)
  from ne l2 obtain re2' where re: "np_interp freq1 freq2 re2 None None = Inr re2'"
    using np_interp_ok by blast
  from ne l2 obtain im2' where im: "np_interp freq1 freq2 im2 None None = Inr im2'"
    using np_interp_ok by blast
  from re im have "length re2' = length freq1" "length im2' = length freq1"
    by (auto dest: np_interp_length)
  with l1 l2 re im show ?thesis
    using media_arrays_cases [of freq1 re1 im1 freq2 re2 im2] assms(1,2)
    by (simp add: t1 t2 wf_trace_def)
qed

lemma write_lines_ok:
  assumes "wf_trace mean"
  shows "list_all (\<lambda>i. i < length (fst mean)) idx \<Longrightarrow> \<exists>content. write_lines fmt mean out0 idx = Inr content"
proof (induction idx arbitrary: out0)
  case Nil
  then show ?case by simp
next
  case (Cons i idx)
  obtain freq_mean re_mean im_mean where m: "mean = (freq_mean, re_mean, im_mean)"
    by (cases mean)
  with assms Cons.prems obtain line where "media_line fmt mean i = Inr line"
    by (auto simp: media_line_def wf_trace_def py_getitem_def Let_def)
  with Cons show ?case by simp
qed

lemma media_content_ok:
  "wf_trace mean \<Longrightarrow> \<exists>content. media_content fmt mean = Inr content"
  unfolding media_content_def
  by (rule write_lines_ok) (simp_all add: list_all_iff)

text \<open>
  Claim C5. \<^verbatim>\<open>criar_media\<close> raises no error. It returns the error outcome exactly
  when one of the two parsed traces has no point; otherwise it returns a file
  whose name is \<^verbatim>\<open>Media_\<close> (with U+00E9 as second letter), the first name, an
  underscore, the second name and \<^verbatim>\<open>.s2p\<close>.
\<close>

theorem criar_media_outcome:
  "\<exists>t1 t2.
     parse_s_param file1_content file1_name = Inr t1
     \<and> parse_s_param file2_content file2_name = Inr t2
     \<and> (if fst t1 = [] \<or> fst t2 = []
        then criar_media fmt file1_content file1_name file2_content file2_name = Inr None
        else \<exists>content.
          criar_media fmt file1_content file1_name file2_content file2_name
            = Inr (Some ([77, 233, 100, 105, 97, 95] @ file1_name @ [95] @ file2_name
                           @ ascii ''.s2p'', content)))"
proof -
  obtain t1 where t1: "parse_s_param file1_content file1_name = Inr t1" "wf_trace t1"
    using parse_s_param_shape by blast
  obtain t2 where t2: "parse_s_param file2_content file2_name = Inr t2" "wf_trace t2"
    using parse_s_param_shape by blast
  show ?thesis
  proof (cases "fst t1 = [] \<or> fst t2 = []")
    case True
    with t1 t2 show ?thesis
      by (auto simp: criar_media_def)
  next
    case False
    with t1 t2 obtain m where m: "media_arrays t1 t2 = Inr m" "wf_trace m"
      using media_arrays_ok by blast
    then obtain content where "media_content fmt m = Inr content"
      using media_content_ok by blast
    with False t1 t2 m show ?thesis
      by (auto simp: criar_media_def nome_media_def)
  qed
qed

text \<open>An empty first file: the error outcome, whatever the second file is.\<close>

lemma parse_s_param_empty: "parse_s_param [] filename = Inr ([], [], [])"
  by (simp add: parse_s_param_def decode_utf8_ignore_def splitlines_def)

lemma criar_media_empty_file:
  "criar_media fmt [] file1_name file2_content file2_name = Inr None"
proof -
  obtain t2 where "parse_s_param file2_content file2_name = Inr t2"
    using parse_s_param_shape by blast
  then show ?thesis
    by (simp add: criar_media_def parse_s_param_empty)
qed

section \<open>Properties of the grouping\<close>







text \<open>
  With the NameError that line 194 raises in the program as it stands, the handler
  fails before any group is formed.
\<close>

lemma gerar_grafico_as_written:
  "10 < length files_data_list \<Longrightarrow>
   gerar_grafico (Inl NameError) titulo files_data_list apply_flags (ascii ''Sim'') = Inl NameError"
  by (simp add: gerar_grafico_def)

end
